theory Spec2Isabelle
  imports Complex_Main "HOL-Library.Stream"
begin

section \<open>The MyStat API client: data model\<close>

text \<open>
  The embedding follows \<^verbatim>\<open>src/backend/services/mystat_client.py\<close>. Each dataclass
  is a record with the source's field names; where two dataclasses share a field name the
  fields of \<^verbatim>\<open>ClientConfig\<close> carry the prefix \<open>cfg_\<close> and the token of
  \<^verbatim>\<open>AuthResponse\<close> the prefix \<open>resp_\<close>.
\<close>

text \<open>A decoded JSON document, as \<^verbatim>\<open>response.json()\<close> returns it.\<close>

datatype json =
    JNull
  | JBool bool
  | JNum int
  | JStr string
  | JArr "json list"
  | JObj "(string \<times> json) list"

record LoginData =
  username :: string
  password :: string

record AuthResponse =
  resp_access_token :: string
  refresh_token :: string
  expires_in_access :: int
  expires_in_refresh :: int
  user_type :: int
  city_data :: json

record AuthError =
  field :: string
  message :: string

text \<open>
  The \<^verbatim>\<open>on_unauthorized\<close> callback is a function supplied by the caller. The model
  keeps it as an opaque handle: calling it is an effect recorded in the trace of the world.
  What the callback itself does (it may raise, or call the client again) is outside the
  model.
\<close>

datatype callback = Handler nat

record ClientConfig =
  cfg_login_data :: LoginData
  cfg_language :: string
  cfg_cache :: "string option"
  cfg_access_token :: "string option"
  cfg_token_expires_at :: "int option"
  cfg_group_id :: "int option"
  on_unauthorized :: "callback option"

record ClientData =
  login_data :: LoginData
  language :: string
  cache :: "string option"
  access_token :: string
  token_expires_at :: int
  group_id :: "int option"

text \<open>The object \<^verbatim>\<open>APIClient\<close>: its two attributes.\<close>

record APIClient =
  config :: ClientConfig
  client_data :: "ClientData option"

text \<open>
  What a \<^verbatim>\<open>requests.Response\<close> holds for the client: the status code and the body
  as text. \<^verbatim>\<open>response.json()\<close> decodes that text; it is \<open>response_json\<close> below.
\<close>

record Response =
  status_code :: int
  body_text :: string

text \<open>
  \<^verbatim>\<open>Response.ok\<close> of the requests library: false exactly when
  \<^verbatim>\<open>raise_for_status\<close> raises, that is for a status from 400 to 599.
\<close>

definition ok :: "Response \<Rightarrow> bool" where
  "ok r \<longleftrightarrow> \<not> (400 \<le> status_code r \<and> status_code r < 600)"

text \<open>\<^verbatim>\<open>Union[int, str]\<close>, the identifier \<^verbatim>\<open>delete_homework\<close> accepts.\<close>

datatype homework_id = Id_int int | Id_str string

text \<open>A \<^verbatim>\<open>pathlib.Path\<close>, named by its path string.\<close>

datatype Path = Path string

section \<open>The world outside the client\<close>

text \<open>
  The result of \<^verbatim>\<open>auth_user\<close>, \<^verbatim>\<open>Union[AuthResponse, List[AuthError]]\<close>:
  the list of field errors on the left, the token grant on the right.
\<close>

type_synonym auth_result = "AuthError list + AuthResponse"

text \<open>The HTTP requests the client sends, with the parts of each that the source sets.\<close>

datatype request =
    Login_post string LoginData
      \<comment> \<open>POST auth/login: application key, credentials (\<open>id_city\<close> is always null)\<close>
  | Api_get string string string
      \<comment> \<open>GET path: path, \<open>x-language\<close>, bearer token\<close>
  | Upload_post "(string \<times> string) list" "(Path \<times> string) option" string string
      \<comment> \<open>POST homework/operations/create: form data, the file part (the path, whose
          name labels the part, and the bytes of the opened file), \<open>x-language\<close>,
          bearer token\<close>
  | Delete_post homework_id string string
      \<comment> \<open>POST homework/operations/delete: id, \<open>x-language\<close>, bearer token\<close>

datatype reply = Auth_reply auth_result | Http_reply Response

datatype event =
    Exchange request reply
  | Callback callback string

text \<open>
  The world supplies what the client cannot compute: the successive values of
  \<^verbatim>\<open>datetime.now().timestamp() * 1000\<close> (a float; the model keeps its exact
  rational value, which is what Python compares with the integer expiry), the decoded
  replies of the login endpoint and the responses to the authenticated requests. Each is
  a stream, consumed one element per clock reading or request, so that a theorem about
  every world covers every behaviour of the clock and of the provider. The trace records
  the requests sent, with their replies, and the callback invocations, in order.
  Two parts of the world are fixed and only read. \<open>json_loads\<close> is the JSON decoder
  that \<^verbatim>\<open>response.json()\<close> applies to the text of a body: a function of the text,
  \<open>None\<close> where the decoder raises; the theorems hold for every such function, the
  library's among them. \<open>file_contents\<close> is the file system as
  \<^verbatim>\<open>file.open("rb")\<close> sees it: the bytes of the file at a path, \<open>None\<close> where
  opening raises. A failed connection is outside the model, and the reply of the login
  endpoint is taken as decoded, in one of its two shapes.
\<close>

record world =
  clock :: "rat stream"
  auth_replies :: "auth_result stream"
  http_replies :: "Response stream"
  json_loads :: "string \<Rightarrow> json option"
  file_contents :: "Path \<Rightarrow> string option"
  trace :: "event list"

definition now_ms :: "world \<Rightarrow> rat \<times> world" where
  "now_ms w = (shd (clock w), w\<lparr>clock := stl (clock w)\<rparr>)"

definition post_login :: "request \<Rightarrow> world \<Rightarrow> auth_result \<times> world" where
  "post_login rq w =
     (shd (auth_replies w),
      w\<lparr>auth_replies := stl (auth_replies w),
        trace := trace w @ [Exchange rq (Auth_reply (shd (auth_replies w)))]\<rparr>)"

definition send :: "request \<Rightarrow> world \<Rightarrow> Response \<times> world" where
  "send rq w =
     (shd (http_replies w),
      w\<lparr>http_replies := stl (http_replies w),
        trace := trace w @ [Exchange rq (Http_reply (shd (http_replies w)))]\<rparr>)"

definition call_back :: "callback \<Rightarrow> string \<Rightarrow> world \<Rightarrow> world" where
  "call_back cb path w = w\<lparr>trace := trace w @ [Callback cb path]\<rparr>"

section \<open>Errors\<close>

text \<open>
  The source raises plain \<^verbatim>\<open>Exception\<close>s; they differ in what they carry. Each
  raise of the source is one constructor, named as the specification names the failure.
  Three more are raised by what the source calls: \<open>AttributeError\<close> when an attribute
  of \<^verbatim>\<open>None\<close> is read, \<open>JSONDecodeError\<close> by \<^verbatim>\<open>response.json()\<close> on a body
  that is not JSON, and \<open>OSError\<close> by \<^verbatim>\<open>file.open("rb")\<close> on a file that cannot be
  opened.
\<close>

datatype error =
    AuthenticationError "AuthError list"  \<comment> \<open>\<^verbatim>\<open>raise Exception(user)\<close>\<close>
  | UninitializedClientError              \<comment> \<open>\<^verbatim>\<open>raise Exception("Client not initialized")\<close>\<close>
  | UnauthorizedError                     \<comment> \<open>\<^verbatim>\<open>raise Exception("Access token is expired or invalid")\<close>\<close>
  | RequestFailedError_json json          \<comment> \<open>\<^verbatim>\<open>raise Exception(response.json())\<close>\<close>
  | RequestFailedError_text string        \<comment> \<open>\<^verbatim>\<open>raise Exception(response.text)\<close>\<close>
  | AttributeError
  | JSONDecodeError
  | OSError

text \<open>\<^verbatim>\<open>response.json()\<close>: the decoded body, or the decoder's error.\<close>

definition response_json :: "world \<Rightarrow> Response \<Rightarrow> error + json" where
  "response_json w response =
     (case json_loads w (body_text response) of
        None \<Rightarrow> Inl JSONDecodeError
      | Some j \<Rightarrow> Inr j)"

section \<open>The session manager\<close>

definition APP_KEY :: string where
  "APP_KEY = ''6a56a5df2667e65aab73ce76d1dd737f7d1faef9c52e8b8c55ac75f565d8e8a6''"

text \<open>\<^verbatim>\<open>APIClient.__init__\<close>\<close>

definition APIClient_init :: "ClientConfig \<Rightarrow> APIClient" where
  "APIClient_init cfg = \<lparr>config = cfg, client_data = None\<rparr>"

text \<open>\<^verbatim>\<open>auth_user\<close>: one POST to the login endpoint; the decoded reply is returned.\<close>

definition auth_user :: "LoginData \<Rightarrow> world \<Rightarrow> auth_result \<times> world" where
  "auth_user ld w = post_login (Login_post APP_KEY ld) w"

text \<open>
  \<^verbatim>\<open>initialize\<close>. The guard \<^verbatim>\<open>config.access_token and config.token_expires_at\<close>
  is Python truthiness: both present, the token not empty and the expiry not zero.
  \<open>login_and_store\<close> is the \<^verbatim>\<open>else\<close> branch.
\<close>

definition login_and_store :: "APIClient \<Rightarrow> world \<Rightarrow> (error + unit) \<times> APIClient \<times> world" where
  "login_and_store c w =
     (case auth_user (cfg_login_data (config c)) w of
        (Inl errs, w') \<Rightarrow> (Inl (AuthenticationError errs), c, w')
      | (Inr user, w') \<Rightarrow>
          (Inr (),
           c\<lparr>client_data := Some
               \<lparr>login_data = cfg_login_data (config c),
                language = (if cfg_language (config c) = [] then ''en''
                            else cfg_language (config c)),
                cache = cfg_cache (config c),
                access_token = resp_access_token user,
                token_expires_at = expires_in_access user * 1000,
                group_id = cfg_group_id (config c)\<rparr>\<rparr>,
           w'))"

definition initialize :: "APIClient \<Rightarrow> world \<Rightarrow> (error + unit) \<times> APIClient \<times> world" where
  "initialize c w =
     (case (cfg_access_token (config c), cfg_token_expires_at (config c)) of
        (Some tok, Some expiry) \<Rightarrow>
          if tok \<noteq> [] \<and> expiry \<noteq> 0 then
            (Inr (),
             c\<lparr>client_data := Some
                 \<lparr>login_data = cfg_login_data (config c),
                  language = cfg_language (config c),
                  cache = cfg_cache (config c),
                  access_token = tok,
                  token_expires_at = expiry,
                  group_id = cfg_group_id (config c)\<rparr>\<rparr>,
             w)
          else login_and_store c w
      | _ \<Rightarrow> login_and_store c w)"

text \<open>
  \<^verbatim>\<open>is_token_expired\<close>. Without a session it answers at once; with one it reads the
  clock, so the world advances by one clock reading.
\<close>

definition is_token_expired :: "APIClient \<Rightarrow> world \<Rightarrow> bool \<times> world" where
  "is_token_expired c w =
     (case client_data c of
        None \<Rightarrow> (True, w)
      | Some s \<Rightarrow>
          (case now_ms w of (t, w') \<Rightarrow> (of_int (token_expires_at s) \<le> t, w')))"

text \<open>\<^verbatim>\<open>update_token\<close>\<close>

definition update_token :: "APIClient \<Rightarrow> world \<Rightarrow> (error + unit) \<times> APIClient \<times> world" where
  "update_token c w =
     (case auth_user (cfg_login_data (config c)) w of
        (Inl errs, w') \<Rightarrow> (Inl (AuthenticationError errs), c, w')
      | (Inr user, w') \<Rightarrow>
          (Inr (),
           (case client_data c of
              None \<Rightarrow> c
            | Some s \<Rightarrow>
                c\<lparr>client_data := Some
                    (s\<lparr>access_token := resp_access_token user,
                       token_expires_at := expires_in_access user * 1000\<rparr>)\<rparr>),
           w'))"

section \<open>The request dispatcher\<close>

text \<open>
  The two lines \<^verbatim>\<open>if self.is_token_expired(): await self.update_token()\<close>, which
  \<^verbatim>\<open>get\<close>, \<^verbatim>\<open>upload_homework\<close> and \<^verbatim>\<open>delete_homework\<close> each run
  before sending.
\<close>

definition refresh_if_expired :: "APIClient \<Rightarrow> world \<Rightarrow> (error + unit) \<times> APIClient \<times> world" where
  "refresh_if_expired c w =
     (case is_token_expired c w of
        (True, w') \<Rightarrow> update_token c w'
      | (False, w') \<Rightarrow> (Inr (), c, w'))"

text \<open>
  \<^verbatim>\<open>get\<close>. The result \<open>None\<close> is Python's \<^verbatim>\<open>None\<close>, returned after the
  callback; \<open>Some j\<close> is the decoded body (a body that is the JSON \<^verbatim>\<open>null\<close>
  decodes to the same Python value \<^verbatim>\<open>None\<close>; the model keeps the two apart as
  \<open>None\<close> and \<open>Some JNull\<close>). Every status but 401 returns the decoded body,
  and raises the decoder's error when the body is not JSON.
  The only recursive call is the retry, made with \<^verbatim>\<open>retry=False\<close>, so the recursion
  ends after one step.
\<close>

function get :: "string \<Rightarrow> bool \<Rightarrow> APIClient \<Rightarrow> world \<Rightarrow> (error + json option) \<times> APIClient \<times> world" where
  "get path retry c w =
     (case client_data c of
        None \<Rightarrow> (Inl UninitializedClientError, c, w)
      | Some _ \<Rightarrow>
          (case refresh_if_expired c w of
             (Inl e, c1, w1) \<Rightarrow> (Inl e, c1, w1)
           | (Inr _, c1, w1) \<Rightarrow>
               (case client_data c1 of
                  None \<Rightarrow> (Inl AttributeError, c1, w1)
                | Some s \<Rightarrow>
                    (case send (Api_get path (language s) (access_token s)) w1 of
                       (response, w2) \<Rightarrow>
                         if status_code response = 401 then
                           (case on_unauthorized (config c1) of
                              Some cb \<Rightarrow> (Inr None, c1, call_back cb path w2)
                            | None \<Rightarrow>
                                if retry then
                                  (case update_token c1 w2 of
                                     (Inl e, c3, w3) \<Rightarrow> (Inl e, c3, w3)
                                   | (Inr _, c3, w3) \<Rightarrow> get path False c3 w3)
                                else (Inl UnauthorizedError, c1, w2))
                         else
                           (case response_json w2 response of
                              Inl e \<Rightarrow> (Inl e, c1, w2)
                            | Inr j \<Rightarrow> (Inr (Some j), c1, w2))))))"
  by pat_completeness auto

termination
  by (relation "measure (\<lambda>(path, retry, c, w). if retry then 1 else 0)") auto

declare get.simps [simp del]

text \<open>Python's \<^verbatim>\<open>str\<close> of an integer: its decimal digits, with a sign when negative.\<close>

fun digits :: "nat \<Rightarrow> string" where
  "digits n =
     (if n < 10 then [char_of (48 + n)]
      else digits (n div 10) @ [char_of (48 + n mod 10)])"

declare digits.simps [simp del]

definition str_int :: "int \<Rightarrow> string" where
  "str_int i = (if i < 0 then CHR ''-'' # digits (nat (- i)) else digits (nat i))"

text \<open>
  \<^verbatim>\<open>upload_homework\<close>. The form data is the dictionary of the source in insertion
  order; \<^verbatim>\<open>answerText\<close> is added when the text is given and not empty.
\<close>

definition upload_form_data :: "int \<Rightarrow> string option \<Rightarrow> int \<Rightarrow> int \<Rightarrow> (string \<times> string) list" where
  "upload_form_data homework_id answer_text spent_time_hour spent_time_min =
     [(''id'', str_int homework_id),
      (''spentTimeHour'', str_int spent_time_hour),
      (''spentTimeMin'', str_int spent_time_min)]
     @ (case answer_text of
          None \<Rightarrow> []
        | Some t \<Rightarrow> if t = [] then [] else [(''answerText'', t)])"

text \<open>
  The dictionary \<^verbatim>\<open>files\<close>: empty without a file; with one (a \<^verbatim>\<open>Path\<close> is
  always true) the file is opened, which raises when it cannot be. The name of the part,
  \<^verbatim>\<open>file.name\<close>, is the last component of the path; the model keeps the path.
\<close>

definition open_file :: "Path option \<Rightarrow> world \<Rightarrow> error + (Path \<times> string) option" where
  "open_file file w =
     (case file of
        None \<Rightarrow> Inr None
      | Some p \<Rightarrow>
          (case file_contents w p of
             None \<Rightarrow> Inl OSError
           | Some bytes \<Rightarrow> Inr (Some (p, bytes))))"

text \<open>
  The order is the source's: session, expiry check, form data, file, request, and then
  \<^verbatim>\<open>response.json()\<close> on either branch of the status test.
\<close>

definition upload_homework ::
  "int \<Rightarrow> string option \<Rightarrow> Path option \<Rightarrow> int \<Rightarrow> int \<Rightarrow> APIClient \<Rightarrow> world
     \<Rightarrow> (error + json) \<times> APIClient \<times> world" where
  "upload_homework homework_id answer_text file spent_time_hour spent_time_min c w =
     (case client_data c of
        None \<Rightarrow> (Inl UninitializedClientError, c, w)
      | Some _ \<Rightarrow>
          (case refresh_if_expired c w of
             (Inl e, c1, w1) \<Rightarrow> (Inl e, c1, w1)
           | (Inr _, c1, w1) \<Rightarrow>
               (let form_data =
                      upload_form_data homework_id answer_text spent_time_hour spent_time_min
                in case open_file file w1 of
                     Inl e \<Rightarrow> (Inl e, c1, w1)
                   | Inr files \<Rightarrow>
                       (case client_data c1 of
                          None \<Rightarrow> (Inl AttributeError, c1, w1)
                        | Some s \<Rightarrow>
                            (case send (Upload_post form_data files (language s) (access_token s))
                                    w1 of
                               (response, w2) \<Rightarrow>
                                 if \<not> ok response then
                                   (case response_json w2 response of
                                      Inl e \<Rightarrow> (Inl e, c1, w2)
                                    | Inr j \<Rightarrow> (Inl (RequestFailedError_json j), c1, w2))
                                 else
                                   (case response_json w2 response of
                                      Inl e \<Rightarrow> (Inl e, c1, w2)
                                    | Inr j \<Rightarrow> (Inr j, c1, w2)))))))"

text \<open>\<^verbatim>\<open>delete_homework\<close>\<close>

definition delete_homework ::
  "homework_id \<Rightarrow> APIClient \<Rightarrow> world \<Rightarrow> (error + bool) \<times> APIClient \<times> world" where
  "delete_homework homework_id c w =
     (case client_data c of
        None \<Rightarrow> (Inl UninitializedClientError, c, w)
      | Some _ \<Rightarrow>
          (case refresh_if_expired c w of
             (Inl e, c1, w1) \<Rightarrow> (Inl e, c1, w1)
           | (Inr _, c1, w1) \<Rightarrow>
               (case client_data c1 of
                  None \<Rightarrow> (Inl AttributeError, c1, w1)
                | Some s \<Rightarrow>
                    (case send (Delete_post homework_id (language s) (access_token s)) w1 of
                       (response, w2) \<Rightarrow>
                         if \<not> ok response then
                           (Inl (RequestFailedError_text (body_text response)), c1, w2)
                         else (Inr (body_text response \<noteq> ''null''), c1, w2)))))"

text \<open>\<^verbatim>\<open>create_client\<close>: the client is returned only when \<^verbatim>\<open>initialize\<close> succeeds.\<close>

definition create_client :: "ClientConfig \<Rightarrow> world \<Rightarrow> (error + APIClient) \<times> world" where
  "create_client cfg w =
     (case initialize (APIClient_init cfg) w of
        (Inl e, c, w') \<Rightarrow> (Inl e, w')
      | (Inr _, c, w') \<Rightarrow> (Inr c, w'))"

section \<open>Observing a run\<close>

text \<open>
  The trace is read through a few observers: which events are login requests (one per
  call of \<^verbatim>\<open>auth_user\<close>, hence one per refresh) and which are authenticated GET
  requests, and how many of each a list of events holds.
\<close>

fun is_login :: "event \<Rightarrow> bool" where
  "is_login (Exchange (Login_post _ _) _) = True"
| "is_login _ = False"

fun is_get :: "event \<Rightarrow> bool" where
  "is_get (Exchange (Api_get _ _ _) _) = True"
| "is_get _ = False"

definition logins_sent :: "event list \<Rightarrow> nat" where
  "logins_sent es = length (filter is_login es)"

definition gets_sent :: "event list \<Rightarrow> nat" where
  "gets_sent es = length (filter is_get es)"

text \<open>The login exchange that a refresh by client \<open>c\<close> in world \<open>w\<close> adds to the trace.\<close>

definition login_event :: "APIClient \<Rightarrow> world \<Rightarrow> event" where
  "login_event c w =
     Exchange (Login_post APP_KEY (cfg_login_data (config c))) (Auth_reply (shd (auth_replies w)))"

text \<open>The guard of \<^verbatim>\<open>initialize\<close>, as a predicate on the configuration.\<close>

definition token_supplied :: "ClientConfig \<Rightarrow> bool" where
  "token_supplied cfg \<longleftrightarrow>
     (case (cfg_access_token cfg, cfg_token_expires_at cfg) of
        (Some tok, Some expiry) \<Rightarrow> tok \<noteq> [] \<and> expiry \<noteq> 0
      | _ \<Rightarrow> False)"

text \<open>
  The events that are authenticated requests (every exchange but a login), the events a
  call adds to the trace, those that precede its first authenticated request and those that
  follow its first GET.
\<close>

fun is_api_request :: "event \<Rightarrow> bool" where
  "is_api_request (Exchange (Login_post _ _) _) = False"
| "is_api_request (Exchange _ _) = True"
| "is_api_request (Callback _ _) = False"

definition events_of :: "world \<Rightarrow> 'r \<times> APIClient \<times> world \<Rightarrow> event list" where
  "events_of w out = drop (length (trace w)) (trace (snd (snd out)))"

definition before_request :: "event list \<Rightarrow> event list" where
  "before_request es = takeWhile (\<lambda>e. \<not> is_api_request e) es"

definition after_first_get :: "event list \<Rightarrow> event list" where
  "after_first_get es = tl (dropWhile (\<lambda>e. \<not> is_get e) es)"

text \<open>
  Shorthands for the two exchanges of the dispatcher: a login of client \<open>c\<close> answered
  by \<open>a\<close>, and a GET of \<open>path\<close> under the language of session \<open>s\<close>
  with bearer token \<open>tok\<close>, answered by \<open>r\<close>.
\<close>

definition login_exchange :: "APIClient \<Rightarrow> auth_result \<Rightarrow> event" where
  "login_exchange c a =
     Exchange (Login_post APP_KEY (cfg_login_data (config c))) (Auth_reply a)"

definition get_exchange :: "string \<Rightarrow> ClientData \<Rightarrow> string \<Rightarrow> Response \<Rightarrow> event" where
  "get_exchange path s tok r = Exchange (Api_get path (language s) tok) (Http_reply r)"

text \<open>
  The session after the two assignments of \<^verbatim>\<open>update_token\<close>, and the outcome of the
  expiry check that opens a call on session \<open>s\<close> in world \<open>w\<close>: whether its login
  is rejected, and the session it leaves (refreshed from the grant when the token was
  expired and the login granted, unchanged otherwise).
\<close>

definition refreshed :: "ClientData \<Rightarrow> AuthResponse \<Rightarrow> ClientData" where
  "refreshed s user =
     s\<lparr>access_token := resp_access_token user,
       token_expires_at := expires_in_access user * 1000\<rparr>"

definition check_rejected :: "ClientData \<Rightarrow> world \<Rightarrow> bool" where
  "check_rejected s w \<longleftrightarrow>
     of_int (token_expires_at s) \<le> shd (clock w) \<and> isl (shd (auth_replies w))"

definition checked_session :: "ClientData \<Rightarrow> world \<Rightarrow> ClientData" where
  "checked_session s w =
     (if of_int (token_expires_at s) \<le> shd (clock w) then
        (case shd (auth_replies w) of
           Inl errs \<Rightarrow> s
         | Inr user \<Rightarrow> refreshed s user)
      else s)"

text \<open>
  What an attempt of \<^verbatim>\<open>get\<close> that may not retry returns for a response: the
  unauthorized error for a 401, otherwise the decoded body or the decoder's error.
\<close>

definition attempt_answer :: "world \<Rightarrow> Response \<Rightarrow> error + json option" where
  "attempt_answer w r =
     (if status_code r = 401 then Inl UnauthorizedError
      else (case response_json w r of
              Inl e \<Rightarrow> Inl e
            | Inr j \<Rightarrow> Inr (Some j)))"

section \<open>Sequences of calls\<close>

text \<open>
  A client lives through a sequence of calls. \<open>perform\<close> runs one call and keeps
  the client and the world it leaves, whether the call returned or raised; \<open>run\<close>
  runs a list of them. \<open>Assign_group_id\<close> is the assignment
  \<^verbatim>\<open>self.client_data.group_id = ...\<close> of \<^verbatim>\<open>get_homework_by_type\<close> and
  \<^verbatim>\<open>get_homework_list\<close>, with any value: these two accessors are a \<open>Get\<close>
  of the user information, that assignment and a second \<open>Get\<close>, and every other
  accessor is one \<open>Get\<close>.
\<close>

datatype operation =
    Initialize
  | Update_token
  | Get string bool
  | Upload_homework int "string option" "Path option" int int
  | Delete_homework homework_id
  | Assign_group_id "int option"

fun perform :: "operation \<Rightarrow> APIClient \<times> world \<Rightarrow> APIClient \<times> world" where
  "perform Initialize (c, w) = snd (initialize c w)"
| "perform Update_token (c, w) = snd (update_token c w)"
| "perform (Get path retry) (c, w) = snd (get path retry c w)"
| "perform (Upload_homework homework_id answer_text file spent_time_hour spent_time_min) (c, w) =
     snd (upload_homework homework_id answer_text file spent_time_hour spent_time_min c w)"
| "perform (Delete_homework homework_id) (c, w) = snd (delete_homework homework_id c w)"
| "perform (Assign_group_id g) (c, w) =
     (case client_data c of
        None \<Rightarrow> (c, w)
      | Some s \<Rightarrow> (c\<lparr>client_data := Some (s\<lparr>group_id := g\<rparr>)\<rparr>, w))"

definition run :: "operation list \<Rightarrow> APIClient \<times> world \<Rightarrow> APIClient \<times> world" where
  "run ops st = fold perform ops st"

text \<open>
  The token and expiry that a login exchange grants, and the invariant of the session: a
  session, when there is one, holds a token and an expiry that belong together, either the
  pair supplied in the configuration or the pair granted by one login reply of the trace.
\<close>

fun grant_of :: "event \<Rightarrow> (string \<times> int) option" where
  "grant_of (Exchange (Login_post _ _) (Auth_reply (Inr user))) =
     Some (resp_access_token user, expires_in_access user * 1000)"
| "grant_of _ = None"

definition session_complete :: "APIClient \<Rightarrow> world \<Rightarrow> bool" where
  "session_complete c w \<longleftrightarrow>
     (case client_data c of
        None \<Rightarrow> True
      | Some s \<Rightarrow>
          (cfg_access_token (config c) = Some (access_token s) \<and>
           cfg_token_expires_at (config c) = Some (token_expires_at s))
          \<or> list_ex (\<lambda>e. grant_of e = Some (access_token s, token_expires_at s)) (trace w))"

text \<open>
  A step from one state to another keeps the configuration, only adds to the trace and
  keeps the invariant.
\<close>

definition preserved :: "APIClient \<times> world \<Rightarrow> APIClient \<times> world \<Rightarrow> bool" where
  "preserved st st' \<longleftrightarrow>
     config (fst st') = config (fst st) \<and>
     (\<exists>es. trace (snd st') = trace (snd st) @ es) \<and>
     (session_complete (fst st) (snd st) \<longrightarrow> session_complete (fst st') (snd st'))"

section \<open>Concrete inputs\<close>

text \<open>
  The configuration of \<^verbatim>\<open>src/backend/main.py\<close>, a token grant, a session and a
  world in which the clock stands at 1700000000000 ms, every login succeeds, every
  request is answered with status 200 and an empty array, and one file can be opened.
\<close>

definition demo_login :: LoginData where
  "demo_login = \<lparr>username = ''login'', password = ''pass''\<rparr>"

definition demo_config :: ClientConfig where
  "demo_config =
     \<lparr>cfg_login_data = demo_login, cfg_language = ''en'', cfg_cache = None,
      cfg_access_token = None, cfg_token_expires_at = None, cfg_group_id = None,
      on_unauthorized = None\<rparr>"

definition demo_grant :: AuthResponse where
  "demo_grant =
     \<lparr>resp_access_token = ''t1'', refresh_token = ''r1'', expires_in_access = 3600,
      expires_in_refresh = 7200, user_type = 1, city_data = JNull\<rparr>"

definition demo_session :: ClientData where
  "demo_session =
     \<lparr>login_data = demo_login, language = ''uk'', cache = Some ''c'',
      access_token = ''t0'', token_expires_at = 1800000000000, group_id = Some 7\<rparr>"

definition demo_client :: APIClient where
  "demo_client = \<lparr>config = demo_config, client_data = Some demo_session\<rparr>"

text \<open>
  The decoder on the bodies of these worlds, where it agrees with the library's: the empty
  array, \<^verbatim>\<open>null\<close>, and a text that is not JSON.
\<close>

definition demo_loads :: "string \<Rightarrow> json option" where
  "demo_loads t =
     (if t = ''[]'' then Some (JArr []) else if t = ''null'' then Some JNull else None)"

definition demo_world :: world where
  "demo_world =
     \<lparr>clock = sconst 1700000000000,
      auth_replies = sconst (Inr demo_grant),
      http_replies = sconst \<lparr>status_code = 200, body_text = ''[]''\<rparr>,
      json_loads = demo_loads,
      file_contents = (\<lambda>p. if p = Path ''answer.txt'' then Some ''42'' else None),
      trace = []\<rparr>"

text \<open>
  A 401 response, the response to deleting a homework that does not exist, the field
  errors of a rejected login, a client whose configuration has an \<^verbatim>\<open>on_unauthorized\<close>
  callback, and three more worlds: one that answers every request with 401, one that
  rejects every login, and one whose clock is past the expiry of the session.
\<close>

definition unauthorized :: Response where
  "unauthorized = \<lparr>status_code = 401, body_text = ''Unauthorized''\<rparr>"

definition deleted_nothing :: Response where
  "deleted_nothing = \<lparr>status_code = 200, body_text = ''null''\<rparr>"

definition demo_errors :: "AuthError list" where
  "demo_errors = [\<lparr>field = ''password'', message = ''Invalid''\<rparr>]"

definition callback_client :: APIClient where
  "callback_client =
     \<lparr>config = demo_config\<lparr>on_unauthorized := Some (Handler 0)\<rparr>,
      client_data = Some demo_session\<rparr>"

definition unauthorized_world :: world where
  "unauthorized_world = demo_world\<lparr>http_replies := sconst unauthorized\<rparr>"

definition denying_world :: world where
  "denying_world = demo_world\<lparr>auth_replies := sconst (Inl demo_errors)\<rparr>"

definition late_world :: world where
  "late_world = demo_world\<lparr>clock := sconst 1900000000000\<rparr>"

text \<open>
  A grant whose \<^verbatim>\<open>expires_in_access\<close> is a time still to come, and the world that
  answers every request with 401 and every login with that grant.
\<close>

definition lasting_grant :: AuthResponse where
  "lasting_grant =
     \<lparr>resp_access_token = ''t2'', refresh_token = ''r2'', expires_in_access = 1900000000,
      expires_in_refresh = 1900003600, user_type = 1, city_data = JNull\<rparr>"

definition renewing_world :: world where
  "renewing_world = unauthorized_world\<lparr>auth_replies := sconst (Inr lasting_grant)\<rparr>"

lemmas demo_defs = demo_login_def demo_config_def demo_grant_def demo_session_def
  demo_client_def demo_loads_def demo_world_def unauthorized_def deleted_nothing_def
  demo_errors_def callback_client_def lasting_grant_def

lemmas world_defs = unauthorized_world_def denying_world_def late_world_def
  renewing_world_def

section \<open>Basic facts\<close>

lemma auth_user_eq:
  "auth_user ld w =
     (shd (auth_replies w),
      w\<lparr>auth_replies := stl (auth_replies w),
        trace := trace w @ [Exchange (Login_post APP_KEY ld) (Auth_reply (shd (auth_replies w)))]\<rparr>)"
  by (simp add: auth_user_def post_login_def)

lemma update_token_Inl:
  "shd (auth_replies w) = Inl errs \<Longrightarrow>
   update_token c w =
     (Inl (AuthenticationError errs), c,
      w\<lparr>auth_replies := stl (auth_replies w), trace := trace w @ [login_event c w]\<rparr>)"
  by (simp add: update_token_def auth_user_eq login_event_def)

lemma update_token_Inr:
  "shd (auth_replies w) = Inr user \<Longrightarrow> client_data c = Some s \<Longrightarrow>
   update_token c w =
     (Inr (),
      c\<lparr>client_data := Some (s\<lparr>access_token := resp_access_token user,
                                 token_expires_at := expires_in_access user * 1000\<rparr>)\<rparr>,
      w\<lparr>auth_replies := stl (auth_replies w), trace := trace w @ [login_event c w]\<rparr>)"
  by (simp add: update_token_def auth_user_eq login_event_def)

lemma refresh_if_expired_Some:
  "client_data c = Some s \<Longrightarrow>
   refresh_if_expired c w =
     (if of_int (token_expires_at s) \<le> shd (clock w)
      then update_token c (w\<lparr>clock := stl (clock w)\<rparr>)
      else (Inr (), c, w\<lparr>clock := stl (clock w)\<rparr>))"
  by (simp add: refresh_if_expired_def is_token_expired_def now_ms_def)

lemma initialize_login:
  "\<not> token_supplied (config c) \<Longrightarrow> initialize c w = login_and_store c w"
  by (auto simp: initialize_def token_supplied_def split: option.splits)

lemmas run_defs = initialize_def login_and_store_def update_token_def auth_user_eq
  refresh_if_expired_def is_token_expired_def now_ms_def send_def call_back_def
  response_json_def open_file_def upload_form_data_def
  get.simps upload_homework_def delete_homework_def APIClient_init_def

lemma get_None:
  "client_data c = None \<Longrightarrow> get path retry c w = (Inl UninitializedClientError, c, w)"
  by (simp add: get.simps)

lemma get_sent:
  assumes "client_data c = Some s" and "refresh_if_expired c w = (Inr u, c1, w1)"
    and "client_data c1 = Some s1"
  shows "get path retry c w =
     (case send (Api_get path (language s1) (access_token s1)) w1 of
        (response, w2) \<Rightarrow>
          if status_code response = 401 then
            (case on_unauthorized (config c1) of
               Some cb \<Rightarrow> (Inr None, c1, call_back cb path w2)
             | None \<Rightarrow>
                 if retry then
                   (case update_token c1 w2 of
                      (Inl e, c3, w3) \<Rightarrow> (Inl e, c3, w3)
                    | (Inr _, c3, w3) \<Rightarrow> get path False c3 w3)
                 else (Inl UnauthorizedError, c1, w2))
          else
            (case response_json w2 response of
               Inl e \<Rightarrow> (Inl e, c1, w2)
             | Inr j \<Rightarrow> (Inr (Some j), c1, w2)))"
  by (subst get.simps) (simp add: assms)

lemma get_refresh_failed:
  "client_data c = Some s \<Longrightarrow> refresh_if_expired c w = (Inl e, c1, w1) \<Longrightarrow>
   get path retry c w = (Inl e, c1, w1)"
  by (subst get.simps) simp

lemma is_token_expired_Some:
  "client_data c = Some s \<Longrightarrow>
   fst (is_token_expired c w) \<longleftrightarrow> of_int (token_expires_at s) \<le> shd (clock w)"
  by (simp add: is_token_expired_def now_ms_def)

lemma refresh_if_expired_cases:
  assumes "client_data c = Some s"
  obtains
    (fresh) "\<not> of_int (token_expires_at s) \<le> shd (clock w)"
      "refresh_if_expired c w = (Inr (), c, w\<lparr>clock := stl (clock w)\<rparr>)"
  | (refreshed) user where "of_int (token_expires_at s) \<le> shd (clock w)"
      "shd (auth_replies w) = Inr user"
      "refresh_if_expired c w =
         (Inr (),
          c\<lparr>client_data := Some (s\<lparr>access_token := resp_access_token user,
                                     token_expires_at := expires_in_access user * 1000\<rparr>)\<rparr>,
          w\<lparr>clock := stl (clock w), auth_replies := stl (auth_replies w),
            trace := trace w @ [login_event c w]\<rparr>)"
  | (failed) errs where "of_int (token_expires_at s) \<le> shd (clock w)"
      "shd (auth_replies w) = Inl errs"
      "refresh_if_expired c w =
         (Inl (AuthenticationError errs), c,
          w\<lparr>clock := stl (clock w), auth_replies := stl (auth_replies w),
            trace := trace w @ [login_event c w]\<rparr>)"
proof (cases "of_int (token_expires_at s) \<le> shd (clock w)")
  case False
  with assms show ?thesis by (intro fresh) (simp_all add: refresh_if_expired_Some)
next
  case True
  show ?thesis
  proof (cases "shd (auth_replies w)")
    case (Inl errs)
    with True assms show ?thesis
      by (intro failed [of errs])
         (simp_all add: refresh_if_expired_Some update_token_Inl login_event_def)
  next
    case (Inr user)
    with True assms show ?thesis
      by (intro refreshed [of user])
         (simp_all add: refresh_if_expired_Some update_token_Inr login_event_def)
  qed
qed

lemma refresh_if_expired_passed:
  assumes "client_data c = Some s" and "refresh_if_expired c w = (Inr u, c1, w1)"
  shows "config c1 = config c \<and> http_replies w1 = http_replies w \<and>
         clock w1 = stl (clock w) \<and>
         (\<exists>s1. client_data c1 = Some s1 \<and> language s1 = language s \<and>
               login_data s1 = login_data s \<and> cache s1 = cache s \<and> group_id s1 = group_id s)"
  by (rule refresh_if_expired_cases [OF assms(1), of w]) (use assms in auto)

lemma update_token_trace:
  "trace (snd (snd (update_token c w))) = trace w @ [login_event c w]"
  by (cases "shd (auth_replies w)")
     (auto simp: update_token_def auth_user_eq login_event_def split: option.splits)

section \<open>The token lifecycle\<close>

text \<open>
  C1, as the code has it. After a successful login, in \<^verbatim>\<open>initialize\<close> when the
  configuration supplies no token and in \<^verbatim>\<open>update_token\<close>, the stored expiry is the
  provider's \<^verbatim>\<open>expires_in_access\<close> times 1000 and nothing else: neither function
  reads the clock, so the current time is no part of it. The provider's value is treated
  as an absolute time in seconds, converted to the milliseconds that
  \<^verbatim>\<open>is_token_expired\<close> compares.
\<close>

theorem login_expiry_from_reply:
  assumes "shd (auth_replies w) = Inr user"
  shows "(\<not> token_supplied (config c) \<longrightarrow>
            fst (initialize c w) = Inr () \<and>
            map_option token_expires_at (client_data (fst (snd (initialize c w))))
              = Some (expires_in_access user * 1000) \<and>
            clock (snd (snd (initialize c w))) = clock w)
       \<and> (client_data c \<noteq> None \<longrightarrow>
            fst (update_token c w) = Inr () \<and>
            map_option token_expires_at (client_data (fst (snd (update_token c w))))
              = Some (expires_in_access user * 1000) \<and>
            clock (snd (snd (update_token c w))) = clock w)"
  using assms
  by (auto simp: initialize_login login_and_store_def update_token_def auth_user_eq)

theorem login_expiry_from_reply_witness:
  "shd (auth_replies demo_world) = Inr demo_grant \<and>
   \<not> token_supplied (config (APIClient_init demo_config)) \<and>
   client_data demo_client \<noteq> None \<and>
   map_option token_expires_at
     (client_data (fst (snd (initialize (APIClient_init demo_config) demo_world))))
     = Some 3600000 \<and>
   map_option token_expires_at
     (client_data (fst (snd (update_token demo_client demo_world))))
     = Some 3600000"
proof -
  have h: "shd (auth_replies demo_world) = Inr demo_grant"
    by (simp add: demo_defs)
  have n: "\<not> token_supplied (config (APIClient_init demo_config))"
    by (simp add: token_supplied_def APIClient_init_def demo_defs)
  have d: "client_data demo_client \<noteq> None"
    by (simp add: demo_defs)
  show ?thesis
    using login_expiry_from_reply [OF h, of "APIClient_init demo_config"]
      login_expiry_from_reply [OF h, of demo_client] h n d
    by (simp add: demo_grant_def)
qed

text \<open>
  C1, as the specification words it, fails. With the clock at 1700000000000 ms and a
  granted \<^verbatim>\<open>expires_in_access\<close> of 3600, both \<^verbatim>\<open>initialize\<close> and
  \<^verbatim>\<open>update_token\<close> store the expiry 3600000, which is not the current time plus the
  lifetime in milliseconds (1700003600000).
\<close>

theorem login_expiry_counterexample:
  "shd (clock demo_world) = 1700000000000 \<and>
   shd (auth_replies demo_world) = Inr demo_grant \<and>
   expires_in_access demo_grant = 3600 \<and>
   fst (initialize (APIClient_init demo_config) demo_world) = Inr () \<and>
   map_option token_expires_at
     (client_data (fst (snd (initialize (APIClient_init demo_config) demo_world))))
     = Some 3600000 \<and>
   map_option (of_int \<circ> token_expires_at)
     (client_data (fst (snd (initialize (APIClient_init demo_config) demo_world))))
     \<noteq> Some (shd (clock demo_world) + of_int (expires_in_access demo_grant * 1000)) \<and>
   fst (update_token demo_client demo_world) = Inr () \<and>
   map_option token_expires_at
     (client_data (fst (snd (update_token demo_client demo_world))))
     = Some 3600000 \<and>
   map_option (of_int \<circ> token_expires_at)
     (client_data (fst (snd (update_token demo_client demo_world))))
     \<noteq> Some (shd (clock demo_world) + of_int (expires_in_access demo_grant * 1000))"
  by (simp add: initialize_def login_and_store_def update_token_def auth_user_eq
      APIClient_init_def demo_defs)

text \<open>
  C7. A successful \<^verbatim>\<open>update_token\<close> on a client with a session replaces the
  session's access token and expiry by those of the grant and leaves the login data, the
  language, the cache and the cached group id, and the configuration, as they were.
\<close>

theorem update_token_frame:
  assumes "update_token c w = (Inr u, c', w')" and "client_data c = Some s"
  shows "\<exists>user s'. shd (auth_replies w) = Inr user \<and> client_data c' = Some s' \<and>
           access_token s' = resp_access_token user \<and>
           token_expires_at s' = expires_in_access user * 1000 \<and>
           login_data s' = login_data s \<and> language s' = language s \<and>
           cache s' = cache s \<and> group_id s' = group_id s \<and> config c' = config c"
proof (cases "shd (auth_replies w)")
  case (Inl errs)
  with assms show ?thesis by (simp add: update_token_Inl)
next
  case (Inr user)
  with assms show ?thesis by (auto simp: update_token_Inr)
qed

theorem update_token_frame_witness:
  "client_data demo_client = Some demo_session \<and>
   update_token demo_client demo_world =
     (Inr (), fst (snd (update_token demo_client demo_world)),
      snd (snd (update_token demo_client demo_world))) \<and>
   map_option group_id (client_data (fst (snd (update_token demo_client demo_world))))
     = Some (Some 7) \<and>
   map_option language (client_data (fst (snd (update_token demo_client demo_world))))
     = Some ''uk''"
proof -
  have h1: "client_data demo_client = Some demo_session"
    by (simp add: demo_client_def)
  have h2: "update_token demo_client demo_world =
     (Inr (), fst (snd (update_token demo_client demo_world)),
      snd (snd (update_token demo_client demo_world)))"
    by (simp add: update_token_def auth_user_eq demo_defs)
  from update_token_frame [OF h2 h1] obtain s' where
    "client_data (fst (snd (update_token demo_client demo_world))) = Some s'"
    "language s' = language demo_session" "group_id s' = group_id demo_session"
    by blast
  then show ?thesis using h1 h2 by (simp add: demo_session_def)
qed

text \<open>
  C8. \<^verbatim>\<open>is_token_expired\<close> answers true exactly when there is no session or the
  clock reading, in milliseconds, is at or past the stored expiry. With a session every
  call takes a new reading of the clock: a second call, made in the world the first one
  leaves, decides by the next reading. The function returns no client, so it keeps no
  result from one call to the next.
\<close>

theorem is_token_expired_fresh:
  "(fst (is_token_expired c w) \<longleftrightarrow>
      client_data c = None \<or>
      (\<exists>s. client_data c = Some s \<and> of_int (token_expires_at s) \<le> shd (clock w)))
   \<and> (\<forall>s. client_data c = Some s \<longrightarrow>
         clock (snd (is_token_expired c w)) = stl (clock w) \<and>
         (fst (is_token_expired c (snd (is_token_expired c w))) \<longleftrightarrow>
            of_int (token_expires_at s) \<le> shd (stl (clock w))))"
  by (auto simp: is_token_expired_def now_ms_def split: option.splits)

theorem is_token_expired_fresh_witness:
  "client_data demo_client = Some demo_session \<and>
   \<not> fst (is_token_expired demo_client demo_world) \<and>
   fst (is_token_expired demo_client
         (demo_world\<lparr>clock := 1700000000000 ## sconst 1900000000000\<rparr>)) = False \<and>
   fst (is_token_expired demo_client
         (snd (is_token_expired demo_client
            (demo_world\<lparr>clock := 1700000000000 ## sconst 1900000000000\<rparr>))))"
  using is_token_expired_fresh [of demo_client demo_world]
    is_token_expired_fresh
      [of demo_client "demo_world\<lparr>clock := 1700000000000 ## sconst 1900000000000\<rparr>"]
  by (simp add: demo_defs)

section \<open>A client without a session\<close>

text \<open>
  C4. When the login of \<^verbatim>\<open>initialize\<close> is rejected (the provider answers with
  a list of field errors), \<^verbatim>\<open>initialize\<close> raises with that list and leaves the
  client as it was, without a session. On that client \<^verbatim>\<open>get\<close>,
  \<^verbatim>\<open>upload_homework\<close> and \<^verbatim>\<open>delete_homework\<close> raise "Client not initialized"
  in every world and leave client and world unchanged: nothing is sent, and the next call
  finds the same client.
\<close>

theorem failed_login_leaves_client_uninitialized:
  assumes "client_data c = None" and "\<not> token_supplied (config c)"
    and "shd (auth_replies w) = Inl errs"
  shows "fst (initialize c w) = Inl (AuthenticationError errs) \<and>
         fst (snd (initialize c w)) = c \<and>
         client_data (fst (snd (initialize c w))) = None \<and>
         (\<forall>path retry w'.
            get path retry (fst (snd (initialize c w))) w'
              = (Inl UninitializedClientError, c, w')) \<and>
         (\<forall>homework_id answer_text file spent_time_hour spent_time_min w'.
            upload_homework homework_id answer_text file spent_time_hour spent_time_min
              (fst (snd (initialize c w))) w'
              = (Inl UninitializedClientError, c, w')) \<and>
         (\<forall>homework_id w'.
            delete_homework homework_id (fst (snd (initialize c w))) w'
              = (Inl UninitializedClientError, c, w'))"
proof -
  have "initialize c w =
      (Inl (AuthenticationError errs), c,
       w\<lparr>auth_replies := stl (auth_replies w), trace := trace w @ [login_event c w]\<rparr>)"
    using assms by (simp add: initialize_login login_and_store_def auth_user_eq login_event_def)
  then show ?thesis
    using assms(1) by (simp add: get_None upload_homework_def delete_homework_def)
qed

theorem failed_login_leaves_client_uninitialized_witness:
  "client_data (APIClient_init demo_config) = None \<and>
   \<not> token_supplied (config (APIClient_init demo_config)) \<and>
   shd (auth_replies denying_world) = Inl demo_errors \<and>
   fst (initialize (APIClient_init demo_config) denying_world)
     = Inl (AuthenticationError demo_errors) \<and>
   get ''settings/user-info'' True
     (fst (snd (initialize (APIClient_init demo_config) denying_world))) demo_world
     = (Inl UninitializedClientError, APIClient_init demo_config, demo_world)"
proof -
  have h1: "client_data (APIClient_init demo_config) = None"
    and h2: "\<not> token_supplied (config (APIClient_init demo_config))"
    and h3: "shd (auth_replies denying_world) = Inl demo_errors"
    by (simp_all add: APIClient_init_def token_supplied_def demo_defs world_defs)
  note t = failed_login_leaves_client_uninitialized [OF h1 h2 h3]
  from t have r: "fst (initialize (APIClient_init demo_config) denying_world)
     = Inl (AuthenticationError demo_errors)"
    by blast
  from t have g: "get ''settings/user-info'' True
     (fst (snd (initialize (APIClient_init demo_config) denying_world))) demo_world
     = (Inl UninitializedClientError, APIClient_init demo_config, demo_world)"
    by blast
  from h1 h2 h3 r g show ?thesis by blast
qed

section \<open>The write operations\<close>

text \<open>
  C9. When \<^verbatim>\<open>delete_homework\<close> runs on a client with a session, its expiry
  check passes and the provider answers with a success status, the call returns true
  exactly when the text of the response is not \<^verbatim>\<open>null\<close>; for the body
  \<^verbatim>\<open>null\<close> it returns false.
\<close>

theorem delete_homework_true_iff_not_null:
  assumes "client_data c = Some s" and "refresh_if_expired c w = (Inr u, c1, w1)"
    and "ok (shd (http_replies w))"
  shows "fst (delete_homework homework_id c w) = Inr (body_text (shd (http_replies w)) \<noteq> ''null'')"
proof -
  from refresh_if_expired_passed [OF assms(1,2)] obtain s1 where
    "client_data c1 = Some s1" "http_replies w1 = http_replies w" by blast
  with assms show ?thesis by (simp add: delete_homework_def send_def)
qed

theorem delete_homework_true_iff_not_null_witness:
  "client_data demo_client = Some demo_session \<and>
   refresh_if_expired demo_client (demo_world\<lparr>http_replies := sconst deleted_nothing\<rparr>)
     = (Inr (), demo_client,
        demo_world\<lparr>http_replies := sconst deleted_nothing, clock := stl (clock demo_world)\<rparr>) \<and>
   ok (shd (http_replies (demo_world\<lparr>http_replies := sconst deleted_nothing\<rparr>))) \<and>
   fst (delete_homework (Id_int 42) demo_client
          (demo_world\<lparr>http_replies := sconst deleted_nothing\<rparr>)) = Inr False"
proof -
  let ?w = "demo_world\<lparr>http_replies := sconst deleted_nothing\<rparr>"
  have h1: "client_data demo_client = Some demo_session"
    and h2: "refresh_if_expired demo_client ?w
     = (Inr (), demo_client,
        demo_world\<lparr>http_replies := sconst deleted_nothing, clock := stl (clock demo_world)\<rparr>)"
    and h3: "ok (shd (http_replies ?w))"
    by (simp_all add: refresh_if_expired_def is_token_expired_def now_ms_def ok_def demo_defs)
  have t: "body_text (shd (http_replies ?w)) = ''null''"
    by (simp add: demo_defs)
  from delete_homework_true_iff_not_null [OF h1 h2 h3, of "Id_int 42"] t
  have "fst (delete_homework (Id_int 42) demo_client ?w) = Inr False"
    by simp
  with h1 h2 h3 show ?thesis by simp
qed


lemma refresh_if_expired_reads:
  assumes "client_data c = Some s" and "refresh_if_expired c w = (Inr u, c1, w1)"
  shows "json_loads w1 = json_loads w \<and> file_contents w1 = file_contents w \<and>
         http_replies w1 = http_replies w"
  by (rule refresh_if_expired_cases [OF assms(1), of w]) (use assms in auto)




section \<open>The 401 policy of \<open>get\<close>\<close>

text \<open>
  C3. When \<^verbatim>\<open>get\<close> receives a 401 and an \<^verbatim>\<open>on_unauthorized\<close> callback is
  configured, the call returns \<^verbatim>\<open>None\<close> without raising, and after its expiry check
  it adds two events only: the request and one invocation of the callback with the
  requested path. No login follows the 401 and the request is not sent again, with either
  value of \<^verbatim>\<open>retry\<close>.
\<close>

theorem get_401_with_callback:
  assumes "client_data c = Some s" and "on_unauthorized (config c) = Some cb"
    and "refresh_if_expired c w = (Inr u, c1, w1)"
    and "status_code (shd (http_replies w)) = 401"
  shows "\<exists>s1. client_data c1 = Some s1 \<and> language s1 = language s \<and>
          get path retry c w =
           (Inr None, c1,
            w1\<lparr>http_replies := stl (http_replies w),
               trace := trace w1 @
                 [Exchange (Api_get path (language s1) (access_token s1))
                    (Http_reply (shd (http_replies w))),
                  Callback cb path]\<rparr>)"
proof -
  from refresh_if_expired_passed [OF assms(1,3)] obtain s1 where
    s1: "client_data c1 = Some s1" "http_replies w1 = http_replies w"
      "language s1 = language s" "config c1 = config c" by blast
  show ?thesis
    using assms(2,4) s1 by (simp add: get_sent [OF assms(1,3) s1(1)] send_def call_back_def)
qed

theorem get_401_with_callback_witness:
  "client_data callback_client = Some demo_session \<and>
   on_unauthorized (config callback_client) = Some (Handler 0) \<and>
   refresh_if_expired callback_client unauthorized_world
     = (Inr (), callback_client, unauthorized_world\<lparr>clock := stl (clock unauthorized_world)\<rparr>) \<and>
   status_code (shd (http_replies unauthorized_world)) = 401 \<and>
   fst (get ''settings/user-info'' True callback_client unauthorized_world) = Inr None"
proof -
  have h1: "client_data callback_client = Some demo_session"
    and h2: "on_unauthorized (config callback_client) = Some (Handler 0)"
    and h3: "refresh_if_expired callback_client unauthorized_world
     = (Inr (), callback_client, unauthorized_world\<lparr>clock := stl (clock unauthorized_world)\<rparr>)"
    and h4: "status_code (shd (http_replies unauthorized_world)) = 401"
    by (simp_all add: refresh_if_expired_def is_token_expired_def now_ms_def demo_defs world_defs)
  from get_401_with_callback [OF h1 h2 h3 h4, of "''settings/user-info''" True]
  have "fst (get ''settings/user-info'' True callback_client unauthorized_world) = Inr None"
    by auto
  with h1 h2 h3 h4 show ?thesis by simp
qed

subsection \<open>The expiry check before the first request\<close>

lemma get_False_trace:
  "\<exists>es. trace (snd (snd (get path False c w))) = trace w @ es"
proof (cases "client_data c")
  case None
  then show ?thesis by (simp add: get_None)
next
  case (Some s)
  show ?thesis
  proof (rule refresh_if_expired_cases [OF Some, of w], goal_cases)
    case 1
    show ?case
      by (simp add: get_sent [OF Some 1(2) Some] send_def call_back_def
          split: option.splits sum.splits)
  next
    case (2 user)
    show ?case
      by (simp add: get_sent [OF Some 2(3)] send_def call_back_def
          split: option.splits sum.splits)
  next
    case (3 errs)
    show ?case
      by (simp add: get_refresh_failed [OF Some 3(3)])
  qed
qed

lemma get_sent_trace:
  assumes "client_data c = Some s" and "refresh_if_expired c w = (Inr u, c1, w1)"
    and "client_data c1 = Some s1"
  shows "\<exists>rest. trace (snd (snd (get path retry c w))) =
           trace w1 @ Exchange (Api_get path (language s1) (access_token s1))
                        (Http_reply (shd (http_replies w1))) # rest"
proof (cases "status_code (shd (http_replies w1)) = 401 \<and> on_unauthorized (config c1) = None \<and> retry")
  case False
  then show ?thesis
    by (auto simp: get_sent [OF assms] send_def call_back_def split: option.splits sum.splits)
next
  case True
  let ?w2 = "snd (send (Api_get path (language s1) (access_token s1)) w1)"
  obtain r c3 w3 where up: "update_token c1 ?w2 = (r, c3, w3)"
    by (cases "update_token c1 ?w2") auto
  with update_token_trace [of c1 ?w2] have t3: "trace w3 = trace ?w2 @ [login_event c1 ?w2]"
    by simp
  obtain es where "trace (snd (snd (get path False c3 w3))) = trace w3 @ es"
    using get_False_trace by blast
  with True up t3 show ?thesis
    by (cases r) (auto simp: get_sent [OF assms] send_def)
qed

lemma event_kinds [simp]:
  "\<not> is_api_request (login_event c w)" "\<not> is_api_request (login_exchange c a)"
  "is_api_request (get_exchange path s tok r)"
  "\<not> is_get (login_event c w)" "\<not> is_get (login_exchange c a)"
  "is_get (get_exchange path s tok r)"
  "is_login (login_event c w)" "is_login (login_exchange c a)"
  "\<not> is_login (get_exchange path s tok r)"
  by (simp_all add: login_event_def login_exchange_def get_exchange_def)

lemma get_first_events:
  assumes "client_data c = Some s"
  shows "\<exists>rest. events_of w (get path retry c w) =
           (if of_int (token_expires_at s) \<le> shd (clock w) then [login_event c w] else [])
           @ (if check_rejected s w then []
              else get_exchange path s (access_token (checked_session s w))
                     (shd (http_replies w)) # rest)"
proof (rule refresh_if_expired_cases [OF assms, of w], goal_cases)
  case 1
  from get_sent_trace [OF assms 1(2) assms, of path retry] 1(1)
  show ?case
    by (auto simp: events_of_def check_rejected_def checked_session_def get_exchange_def)
next
  case (2 user)
  from get_sent_trace [OF assms 2(3), of _ path retry] 2(1,2)
  show ?case
    by (auto simp: events_of_def check_rejected_def checked_session_def refreshed_def
        get_exchange_def)
next
  case (3 errs)
  then show ?case
    by (simp add: get_refresh_failed [OF assms 3(3)] events_of_def check_rejected_def)
qed

lemma upload_events:
  assumes "client_data c = Some s"
  shows "events_of w (upload_homework hid a f sh sm c w) =
           (if of_int (token_expires_at s) \<le> shd (clock w) then [login_event c w] else [])
           @ (if check_rejected s w then []
              else (case open_file f w of
                      Inl e \<Rightarrow> []
                    | Inr files \<Rightarrow>
                        [Exchange
                           (Upload_post (upload_form_data hid a sh sm) files (language s)
                              (access_token (checked_session s w)))
                           (Http_reply (shd (http_replies w)))]))
         \<and> client_data (fst (snd (upload_homework hid a f sh sm c w)))
             = Some (checked_session s w)"
proof (rule refresh_if_expired_cases [OF assms, of w], goal_cases)
  case 1
  then show ?case
    using assms
    by (auto simp: upload_homework_def send_def open_file_def response_json_def events_of_def
        check_rejected_def checked_session_def split: option.splits)
next
  case (2 user)
  then show ?case
    using assms
    by (auto simp: upload_homework_def send_def open_file_def response_json_def events_of_def
        check_rejected_def checked_session_def refreshed_def split: option.splits)
next
  case (3 errs)
  then show ?case
    using assms
    by (auto simp: upload_homework_def events_of_def check_rejected_def checked_session_def)
qed

lemma delete_events:
  assumes "client_data c = Some s"
  shows "events_of w (delete_homework hid c w) =
           (if of_int (token_expires_at s) \<le> shd (clock w) then [login_event c w] else [])
           @ (if check_rejected s w then []
              else [Exchange (Delete_post hid (language s) (access_token (checked_session s w)))
                      (Http_reply (shd (http_replies w)))])
         \<and> client_data (fst (snd (delete_homework hid c w))) = Some (checked_session s w)"
proof (rule refresh_if_expired_cases [OF assms, of w], goal_cases)
  case 1
  then show ?case
    using assms
    by (auto simp: delete_homework_def send_def events_of_def check_rejected_def
        checked_session_def)
next
  case (2 user)
  then show ?case
    using assms
    by (auto simp: delete_homework_def send_def events_of_def check_rejected_def
        checked_session_def refreshed_def)
next
  case (3 errs)
  then show ?case
    using assms
    by (auto simp: delete_homework_def events_of_def check_rejected_def checked_session_def)
qed

lemma get_session_not_401:
  assumes "client_data c = Some s" and "status_code (shd (http_replies w)) \<noteq> 401"
  shows "client_data (fst (snd (get path retry c w))) = Some (checked_session s w)"
proof (rule refresh_if_expired_cases [OF assms(1), of w], goal_cases)
  case 1
  then show ?case
    using assms
    by (simp add: get_sent [OF assms(1) 1(2) assms(1)] send_def checked_session_def
        split: sum.splits)
next
  case (2 user)
  then show ?case
    using assms
    by (simp add: get_sent [OF assms(1) 2(3)] send_def checked_session_def refreshed_def
        split: sum.splits)
next
  case (3 errs)
  then show ?case
    using assms
    by (simp add: get_refresh_failed [OF assms(1) 3(3)] checked_session_def)
qed

text \<open>
  C6. On a client with a session, \<^verbatim>\<open>get\<close>, \<^verbatim>\<open>upload_homework\<close> and
  \<^verbatim>\<open>delete_homework\<close> each put before their first authenticated request exactly
  one login when \<^verbatim>\<open>is_token_expired\<close> answers true, and nothing when it answers
  false. That login is a refresh: the first request, which is the request of the call,
  goes out under the token of the session the check leaves (the granted token after a
  refresh, the stored one without), and the call ends with that session: always for
  \<^verbatim>\<open>upload_homework\<close> and \<^verbatim>\<open>delete_homework\<close>, and for \<^verbatim>\<open>get\<close> when the
  answer is not a 401 (after a 401 the session is what the 401 policy makes of it). No
  request is sent when the login of the refresh is rejected, nor by
  \<^verbatim>\<open>upload_homework\<close> when its file cannot be opened.
\<close>

theorem refresh_before_send_iff_expired:
  assumes "client_data c = Some s"
  shows "before_request (events_of w (get path retry c w))
           = (if fst (is_token_expired c w) then [login_event c w] else [])
       \<and> before_request (events_of w (upload_homework hid a f sh sm c w))
           = (if fst (is_token_expired c w) then [login_event c w] else [])
       \<and> before_request (events_of w (delete_homework hid' c w))
           = (if fst (is_token_expired c w) then [login_event c w] else [])
       \<and> find is_api_request (events_of w (get path retry c w))
           = (if check_rejected s w then None
              else Some (get_exchange path s (access_token (checked_session s w))
                           (shd (http_replies w))))
       \<and> find is_api_request (events_of w (upload_homework hid a f sh sm c w))
           = (if check_rejected s w then None
              else (case open_file f w of
                      Inl e \<Rightarrow> None
                    | Inr files \<Rightarrow>
                        Some (Exchange
                                (Upload_post (upload_form_data hid a sh sm) files (language s)
                                   (access_token (checked_session s w)))
                                (Http_reply (shd (http_replies w))))))
       \<and> find is_api_request (events_of w (delete_homework hid' c w))
           = (if check_rejected s w then None
              else Some (Exchange
                           (Delete_post hid' (language s) (access_token (checked_session s w)))
                           (Http_reply (shd (http_replies w)))))
       \<and> client_data (fst (snd (upload_homework hid a f sh sm c w)))
           = Some (checked_session s w)
       \<and> client_data (fst (snd (delete_homework hid' c w))) = Some (checked_session s w)
       \<and> (status_code (shd (http_replies w)) \<noteq> 401 \<longrightarrow>
            client_data (fst (snd (get path retry c w))) = Some (checked_session s w))"
proof -
  note ex = is_token_expired_Some [OF assms, of w]
  from get_first_events [OF assms, of w path retry] obtain rest where
    g: "events_of w (get path retry c w) =
           (if of_int (token_expires_at s) \<le> shd (clock w) then [login_event c w] else [])
           @ (if check_rejected s w then []
              else get_exchange path s (access_token (checked_session s w))
                     (shd (http_replies w)) # rest)"
    by blast
  have g1: "before_request (events_of w (get path retry c w))
           = (if fst (is_token_expired c w) then [login_event c w] else [])"
    by (simp add: g ex before_request_def)
  have g2: "find is_api_request (events_of w (get path retry c w))
           = (if check_rejected s w then None
              else Some (get_exchange path s (access_token (checked_session s w))
                           (shd (http_replies w))))"
    by (simp add: g)
  note u = upload_events [OF assms, of w hid a f sh sm]
  have u1: "before_request (events_of w (upload_homework hid a f sh sm c w))
           = (if fst (is_token_expired c w) then [login_event c w] else [])"
    by (simp add: u ex before_request_def split: sum.splits)
  have u2: "find is_api_request (events_of w (upload_homework hid a f sh sm c w))
           = (if check_rejected s w then None
              else (case open_file f w of
                      Inl e \<Rightarrow> None
                    | Inr files \<Rightarrow>
                        Some (Exchange
                                (Upload_post (upload_form_data hid a sh sm) files (language s)
                                   (access_token (checked_session s w)))
                                (Http_reply (shd (http_replies w))))))"
    by (simp add: u split: sum.splits)
  note d = delete_events [OF assms, of w hid']
  have d1: "before_request (events_of w (delete_homework hid' c w))
           = (if fst (is_token_expired c w) then [login_event c w] else [])"
    by (simp add: d ex before_request_def)
  have d2: "find is_api_request (events_of w (delete_homework hid' c w))
           = (if check_rejected s w then None
              else Some (Exchange
                           (Delete_post hid' (language s) (access_token (checked_session s w)))
                           (Http_reply (shd (http_replies w)))))"
    by (simp add: d)
  from g1 g2 u1 u2 d1 d2 u d get_session_not_401 [OF assms, of w path retry]
  show ?thesis by blast
qed

theorem refresh_before_send_iff_expired_witness:
  "client_data demo_client = Some demo_session \<and>
   fst (is_token_expired demo_client late_world) \<and>
   \<not> fst (is_token_expired demo_client demo_world) \<and>
   before_request (events_of late_world (get ''count/homework'' True demo_client late_world))
     = [login_event demo_client late_world] \<and>
   before_request (events_of demo_world (get ''count/homework'' True demo_client demo_world))
     = [] \<and>
   find is_api_request
     (events_of late_world (delete_homework (Id_int 1) demo_client late_world))
     = Some (Exchange (Delete_post (Id_int 1) ''uk'' ''t1'')
               (Http_reply \<lparr>status_code = 200, body_text = ''[]''\<rparr>)) \<and>
   find is_api_request
     (events_of demo_world (delete_homework (Id_int 1) demo_client demo_world))
     = Some (Exchange (Delete_post (Id_int 1) ''uk'' ''t0'')
               (Http_reply \<lparr>status_code = 200, body_text = ''[]''\<rparr>)) \<and>
   find is_api_request
     (events_of demo_world
        (upload_homework 1 None (Some (Path ''missing.txt'')) 99 99 demo_client demo_world))
     = None"
proof -
  have h: "client_data demo_client = Some demo_session"
    by (simp add: demo_defs)
  have e: "fst (is_token_expired demo_client late_world)"
    "\<not> fst (is_token_expired demo_client demo_world)"
    by (simp_all add: is_token_expired_def now_ms_def demo_defs world_defs)
  have k: "\<not> check_rejected demo_session late_world"
    "\<not> check_rejected demo_session demo_world"
    "access_token (checked_session demo_session late_world) = ''t1''"
    "access_token (checked_session demo_session demo_world) = ''t0''"
    "language demo_session = ''uk''"
    "shd (http_replies late_world) = \<lparr>status_code = 200, body_text = ''[]''\<rparr>"
    "shd (http_replies demo_world) = \<lparr>status_code = 200, body_text = ''[]''\<rparr>"
    "open_file (Some (Path ''missing.txt'')) demo_world = Inl OSError"
    by (simp_all add: check_rejected_def checked_session_def refreshed_def open_file_def
        demo_defs world_defs)
  from refresh_before_send_iff_expired
         [OF h, of late_world "''count/homework''" True 1 None "Some (Path ''missing.txt'')"
            99 99 "Id_int 1"]
       refresh_before_send_iff_expired
         [OF h, of demo_world "''count/homework''" True 1 None "Some (Path ''missing.txt'')"
            99 99 "Id_int 1"]
       h e k
  show ?thesis by simp
qed

subsection \<open>One forced refresh, one retry\<close>

lemma gets_sent_simps [simp]:
  "gets_sent [] = 0"
  "gets_sent (e # es) = (if is_get e then 1 else 0) + gets_sent es"
  "gets_sent (es @ es') = gets_sent es + gets_sent es'"
  by (simp_all add: gets_sent_def)

lemma logins_sent_simps [simp]:
  "logins_sent [] = 0"
  "logins_sent (e # es) = (if is_login e then 1 else 0) + logins_sent es"
  "logins_sent (es @ es') = logins_sent es + logins_sent es'"
  by (simp_all add: logins_sent_def)

text \<open>An attempt that may not retry, in full.\<close>

lemma get_no_retry_eq:
  assumes "client_data c = Some s" and "on_unauthorized (config c) = None"
  shows "get path False c w =
     (if of_int (token_expires_at s) \<le> shd (clock w) then
        (case shd (auth_replies w) of
           Inl errs \<Rightarrow>
             (Inl (AuthenticationError errs), c,
              w\<lparr>clock := stl (clock w), auth_replies := stl (auth_replies w),
                trace := trace w @ [login_exchange c (Inl errs)]\<rparr>)
         | Inr user \<Rightarrow>
             (attempt_answer w (shd (http_replies w)),
              c\<lparr>client_data := Some (refreshed s user)\<rparr>,
              w\<lparr>clock := stl (clock w), auth_replies := stl (auth_replies w),
                http_replies := stl (http_replies w),
                trace := trace w @
                  [login_exchange c (Inr user),
                   get_exchange path s (resp_access_token user) (shd (http_replies w))]\<rparr>))
      else
        (attempt_answer w (shd (http_replies w)), c,
         w\<lparr>clock := stl (clock w), http_replies := stl (http_replies w),
           trace := trace w @
             [get_exchange path s (access_token s) (shd (http_replies w))]\<rparr>))"
proof (rule refresh_if_expired_cases [OF assms(1), of w], goal_cases)
  case 1
  then show ?case
    using assms
    by (simp add: get_sent [OF assms(1) 1(2) assms(1)] send_def attempt_answer_def
        response_json_def get_exchange_def split: sum.splits option.splits)
next
  case (2 user)
  then show ?case
    using assms
    by (simp add: get_sent [OF assms(1) 2(3)] send_def attempt_answer_def
        response_json_def get_exchange_def login_exchange_def login_event_def refreshed_def
        split: sum.splits option.splits)
next
  case (3 errs)
  then show ?case
    by (simp add: get_refresh_failed [OF assms(1) 3(3)] login_exchange_def login_event_def)
qed

text \<open>What follows a 401 on the first attempt, in full.\<close>

lemma get_retry_eq:
  assumes "client_data c = Some s" and "on_unauthorized (config c) = None"
    and "refresh_if_expired c w = (Inr u, c1, w1)" and "client_data c1 = Some s1"
    and "status_code (shd (http_replies w)) = 401"
  shows "get path True c w =
     (case shd (auth_replies w1) of
        Inl errs \<Rightarrow>
          (Inl (AuthenticationError errs), c1,
           w1\<lparr>http_replies := stl (http_replies w),
              auth_replies := stl (auth_replies w1),
              trace := trace w1 @
                [get_exchange path s (access_token s1) (shd (http_replies w)),
                 login_exchange c (Inl errs)]\<rparr>)
      | Inr user \<Rightarrow>
          if of_int (expires_in_access user * 1000) \<le> shd (clock w1) then
            (case shd (stl (auth_replies w1)) of
               Inl errs \<Rightarrow>
                 (Inl (AuthenticationError errs),
                  c1\<lparr>client_data := Some (refreshed s1 user)\<rparr>,
                  w1\<lparr>clock := stl (clock w1),
                     http_replies := stl (http_replies w),
                     auth_replies := stl (stl (auth_replies w1)),
                     trace := trace w1 @
                       [get_exchange path s (access_token s1) (shd (http_replies w)),
                        login_exchange c (Inr user),
                        login_exchange c (Inl errs)]\<rparr>)
             | Inr user' \<Rightarrow>
                 (attempt_answer w (shd (stl (http_replies w))),
                  c1\<lparr>client_data := Some (refreshed (refreshed s1 user) user')\<rparr>,
                  w1\<lparr>clock := stl (clock w1),
                     http_replies := stl (stl (http_replies w)),
                     auth_replies := stl (stl (auth_replies w1)),
                     trace := trace w1 @
                       [get_exchange path s (access_token s1) (shd (http_replies w)),
                        login_exchange c (Inr user),
                        login_exchange c (Inr user'),
                        get_exchange path s (resp_access_token user')
                          (shd (stl (http_replies w)))]\<rparr>))
          else
            (attempt_answer w (shd (stl (http_replies w))),
             c1\<lparr>client_data := Some (refreshed s1 user)\<rparr>,
             w1\<lparr>clock := stl (clock w1),
                http_replies := stl (stl (http_replies w)),
                auth_replies := stl (auth_replies w1),
                trace := trace w1 @
                  [get_exchange path s (access_token s1) (shd (http_replies w)),
                   login_exchange c (Inr user),
                   get_exchange path s (resp_access_token user)
                     (shd (stl (http_replies w)))]\<rparr>))"
proof -
  from refresh_if_expired_passed [OF assms(1,3)] assms(4) have
    k: "config c1 = config c" "http_replies w1 = http_replies w" "language s1 = language s"
    by auto
  note rd = refresh_if_expired_reads [OF assms(1,3)]
  let ?w2 = "w1\<lparr>http_replies := stl (http_replies w),
      trace := trace w1 @ [get_exchange path s (access_token s1) (shd (http_replies w))]\<rparr>"
  have g: "get path True c w =
      (case update_token c1 ?w2 of
         (Inl e, c3, w3) \<Rightarrow> (Inl e, c3, w3)
       | (Inr _, c3, w3) \<Rightarrow> get path False c3 w3)"
    using assms(2,5) k
    by (simp add: get_sent [OF assms(1,3,4)] send_def get_exchange_def)
  show ?thesis
  proof (cases "shd (auth_replies w1)")
    case (Inl errs)
    then have "shd (auth_replies ?w2) = Inl errs" by simp
    from update_token_Inl [OF this, of c1] Inl k show ?thesis
      by (simp add: g login_event_def login_exchange_def)
  next
    case (Inr user)
    then have a2: "shd (auth_replies ?w2) = Inr user" by simp
    let ?c3 = "c1\<lparr>client_data := Some (refreshed s1 user)\<rparr>"
    let ?w3 = "?w2\<lparr>auth_replies := stl (auth_replies ?w2),
                    trace := trace ?w2 @ [login_event c1 ?w2]\<rparr>"
    have g3: "get path True c w = get path False ?c3 ?w3"
      by (simp add: g update_token_Inr [OF a2 assms(4)] refreshed_def)
    have c3: "client_data ?c3 = Some (refreshed s1 user)"
      "on_unauthorized (config ?c3) = None"
      using assms(2) k by simp_all
    show ?thesis
      unfolding g3 get_no_retry_eq [OF c3]
      using Inr k rd
      by (simp add: attempt_answer_def response_json_def login_event_def login_exchange_def
          get_exchange_def refreshed_def split: sum.splits)
  qed
qed

lemma get_gets_bound:
  assumes "client_data c = Some s" and "on_unauthorized (config c) = None"
  shows "gets_sent (events_of w (get path retry c w)) \<le> 2"
proof (cases retry)
  case False
  then show ?thesis
    by (simp add: get_no_retry_eq [OF assms] events_of_def split: sum.splits)
next
  case True
  show ?thesis
  proof (rule refresh_if_expired_cases [OF assms(1), of w], goal_cases)
    case 1
    show ?case
    proof (cases "status_code (shd (http_replies w)) = 401")
      case False
      with True show ?thesis
        by (simp add: get_sent [OF assms(1) 1(2) assms(1)] send_def events_of_def
            split: sum.splits)
    next
      case r: True
      from True show ?thesis
        by (simp add: get_retry_eq [OF assms 1(2) assms(1) r] events_of_def
            split: sum.splits)
    qed
  next
    case (2 user)
    have c1: "client_data (c\<lparr>client_data := Some (s\<lparr>access_token := resp_access_token user,
                 token_expires_at := expires_in_access user * 1000\<rparr>)\<rparr>)
            = Some (s\<lparr>access_token := resp_access_token user,
                 token_expires_at := expires_in_access user * 1000\<rparr>)"
      by simp
    show ?case
    proof (cases "status_code (shd (http_replies w)) = 401")
      case False
      with True show ?thesis
        by (simp add: get_sent [OF assms(1) 2(3) c1] send_def events_of_def
            login_event_def split: sum.splits)
    next
      case r: True
      from True show ?thesis
        by (simp add: get_retry_eq [OF assms 2(3) c1 r] events_of_def login_event_def
            split: sum.splits)
    qed
  next
    case (3 errs)
    with True show ?case
      by (simp add: get_refresh_failed [OF assms(1) 3(3)] events_of_def)
  qed
qed

text \<open>
  C2, as the code has it. \<^verbatim>\<open>get\<close> on a client with a session and no
  \<^verbatim>\<open>on_unauthorized\<close> callback sends at most two GET requests, whatever the world
  answers. When the first attempt passes its expiry check and its request is answered 401,
  the call is determined by the replies that follow. The login of the forced refresh comes
  next. If it is rejected, the call raises with its errors and sends nothing more. If it is
  granted, the retry runs as every attempt does, expiry check first. When the token just
  granted is not yet expired, the request is sent once more under that token. When it is
  already expired, a second login comes first: rejected, it ends the call with its errors
  and no retry request; granted, the request is sent once more under the newest token. The
  retry request is the same path under the same language, and its answer ends the call:
  "Access token is expired or invalid" for a second 401, the decoded body (or the
  decoder's error) otherwise.
\<close>

theorem get_401_refresh_then_retry:
  assumes "client_data c = Some s" and "on_unauthorized (config c) = None"
  shows "gets_sent (events_of w (get path retry c w)) \<le> 2 \<and>
    (refresh_if_expired c w = (Inr u, c1, w1) \<and> client_data c1 = Some s1 \<and>
     status_code (shd (http_replies w)) = 401 \<longrightarrow>
     get path True c w =
     (case shd (auth_replies w1) of
        Inl errs \<Rightarrow>
          (Inl (AuthenticationError errs), c1,
           w1\<lparr>http_replies := stl (http_replies w),
              auth_replies := stl (auth_replies w1),
              trace := trace w1 @
                [get_exchange path s (access_token s1) (shd (http_replies w)),
                 login_exchange c (Inl errs)]\<rparr>)
      | Inr user \<Rightarrow>
          if of_int (expires_in_access user * 1000) \<le> shd (clock w1) then
            (case shd (stl (auth_replies w1)) of
               Inl errs \<Rightarrow>
                 (Inl (AuthenticationError errs),
                  c1\<lparr>client_data := Some (refreshed s1 user)\<rparr>,
                  w1\<lparr>clock := stl (clock w1),
                     http_replies := stl (http_replies w),
                     auth_replies := stl (stl (auth_replies w1)),
                     trace := trace w1 @
                       [get_exchange path s (access_token s1) (shd (http_replies w)),
                        login_exchange c (Inr user),
                        login_exchange c (Inl errs)]\<rparr>)
             | Inr user' \<Rightarrow>
                 (attempt_answer w (shd (stl (http_replies w))),
                  c1\<lparr>client_data := Some (refreshed (refreshed s1 user) user')\<rparr>,
                  w1\<lparr>clock := stl (clock w1),
                     http_replies := stl (stl (http_replies w)),
                     auth_replies := stl (stl (auth_replies w1)),
                     trace := trace w1 @
                       [get_exchange path s (access_token s1) (shd (http_replies w)),
                        login_exchange c (Inr user),
                        login_exchange c (Inr user'),
                        get_exchange path s (resp_access_token user')
                          (shd (stl (http_replies w)))]\<rparr>))
          else
            (attempt_answer w (shd (stl (http_replies w))),
             c1\<lparr>client_data := Some (refreshed s1 user)\<rparr>,
             w1\<lparr>clock := stl (clock w1),
                http_replies := stl (stl (http_replies w)),
                auth_replies := stl (auth_replies w1),
                trace := trace w1 @
                  [get_exchange path s (access_token s1) (shd (http_replies w)),
                   login_exchange c (Inr user),
                   get_exchange path s (resp_access_token user)
                     (shd (stl (http_replies w)))]\<rparr>)))"
  using get_gets_bound [OF assms, of w path retry] get_retry_eq [OF assms, of w u c1 w1 s1 path]
  by blast

theorem get_401_refresh_then_retry_witness:
  "client_data demo_client = Some demo_session \<and>
   on_unauthorized (config demo_client) = None \<and>
   refresh_if_expired demo_client renewing_world
     = (Inr (), demo_client, renewing_world\<lparr>clock := stl (clock renewing_world)\<rparr>) \<and>
   status_code (shd (http_replies renewing_world)) = 401 \<and>
   status_code (shd (stl (http_replies renewing_world))) = 401 \<and>
   get ''settings/user-info'' True demo_client renewing_world =
     (Inl UnauthorizedError,
      demo_client\<lparr>client_data := Some (refreshed demo_session lasting_grant)\<rparr>,
      renewing_world
        \<lparr>clock := stl (stl (clock renewing_world)),
         http_replies := stl (stl (http_replies renewing_world)),
         auth_replies := stl (auth_replies renewing_world),
         trace :=
           [get_exchange ''settings/user-info'' demo_session ''t0'' unauthorized,
            login_exchange demo_client (Inr lasting_grant),
            get_exchange ''settings/user-info'' demo_session ''t2'' unauthorized]\<rparr>)"
proof -
  let ?w1 = "renewing_world\<lparr>clock := stl (clock renewing_world)\<rparr>"
  have h1: "client_data demo_client = Some demo_session"
    and h2: "on_unauthorized (config demo_client) = None"
    and h3: "refresh_if_expired demo_client renewing_world = (Inr (), demo_client, ?w1)"
    and h4: "status_code (shd (http_replies renewing_world)) = 401"
    and h5: "status_code (shd (stl (http_replies renewing_world))) = 401"
    by (simp_all add: refresh_if_expired_def is_token_expired_def now_ms_def
        demo_defs world_defs)
  have a: "shd (auth_replies ?w1) = Inr lasting_grant"
    and e: "\<not> of_int (expires_in_access lasting_grant * 1000) \<le> shd (clock ?w1)"
    by (simp_all add: demo_defs world_defs)
  from get_401_refresh_then_retry
         [OF h1 h2, of renewing_world "''settings/user-info''" True "()" demo_client ?w1
            demo_session]
       h1 h3 h4
  have "get ''settings/user-info'' True demo_client renewing_world =
     (case shd (auth_replies ?w1) of
        Inl errs \<Rightarrow>
          (Inl (AuthenticationError errs), demo_client,
           ?w1\<lparr>http_replies := stl (http_replies renewing_world),
              auth_replies := stl (auth_replies ?w1),
              trace := trace ?w1 @
                [get_exchange ''settings/user-info'' demo_session (access_token demo_session)
                   (shd (http_replies renewing_world)),
                 login_exchange demo_client (Inl errs)]\<rparr>)
      | Inr user \<Rightarrow>
          if of_int (expires_in_access user * 1000) \<le> shd (clock ?w1) then
            (case shd (stl (auth_replies ?w1)) of
               Inl errs \<Rightarrow>
                 (Inl (AuthenticationError errs),
                  demo_client\<lparr>client_data := Some (refreshed demo_session user)\<rparr>,
                  ?w1\<lparr>clock := stl (clock ?w1),
                     http_replies := stl (http_replies renewing_world),
                     auth_replies := stl (stl (auth_replies ?w1)),
                     trace := trace ?w1 @
                       [get_exchange ''settings/user-info'' demo_session
                          (access_token demo_session) (shd (http_replies renewing_world)),
                        login_exchange demo_client (Inr user),
                        login_exchange demo_client (Inl errs)]\<rparr>)
             | Inr user' \<Rightarrow>
                 (attempt_answer renewing_world (shd (stl (http_replies renewing_world))),
                  demo_client
                    \<lparr>client_data := Some (refreshed (refreshed demo_session user) user')\<rparr>,
                  ?w1\<lparr>clock := stl (clock ?w1),
                     http_replies := stl (stl (http_replies renewing_world)),
                     auth_replies := stl (stl (auth_replies ?w1)),
                     trace := trace ?w1 @
                       [get_exchange ''settings/user-info'' demo_session
                          (access_token demo_session) (shd (http_replies renewing_world)),
                        login_exchange demo_client (Inr user),
                        login_exchange demo_client (Inr user'),
                        get_exchange ''settings/user-info'' demo_session
                          (resp_access_token user')
                          (shd (stl (http_replies renewing_world)))]\<rparr>))
          else
            (attempt_answer renewing_world (shd (stl (http_replies renewing_world))),
             demo_client\<lparr>client_data := Some (refreshed demo_session user)\<rparr>,
             ?w1\<lparr>clock := stl (clock ?w1),
                http_replies := stl (stl (http_replies renewing_world)),
                auth_replies := stl (auth_replies ?w1),
                trace := trace ?w1 @
                  [get_exchange ''settings/user-info'' demo_session
                     (access_token demo_session) (shd (http_replies renewing_world)),
                   login_exchange demo_client (Inr user),
                   get_exchange ''settings/user-info'' demo_session (resp_access_token user)
                     (shd (stl (http_replies renewing_world)))]\<rparr>))"
    by blast
  also have "\<dots> =
     (Inl UnauthorizedError,
      demo_client\<lparr>client_data := Some (refreshed demo_session lasting_grant)\<rparr>,
      renewing_world
        \<lparr>clock := stl (stl (clock renewing_world)),
         http_replies := stl (stl (http_replies renewing_world)),
         auth_replies := stl (auth_replies renewing_world),
         trace :=
           [get_exchange ''settings/user-info'' demo_session ''t0'' unauthorized,
            login_exchange demo_client (Inr lasting_grant),
            get_exchange ''settings/user-info'' demo_session ''t2'' unauthorized]\<rparr>)"
    by (simp add: attempt_answer_def demo_defs world_defs)
  finally show ?thesis using h1 h2 h3 h4 h5 by simp
qed

text \<open>
  C2, as it is worded, fails: a 401 on the first attempt is not always followed by exactly
  one refresh. With the clock at 1700000000000 ms and a provider that grants
  \<^verbatim>\<open>expires_in_access\<close> 3600, the token of the forced refresh is stored with expiry
  3600000 and is already expired when the retry checks it, so the retry refreshes again:
  two logins lie between the 401 and the retry request.
\<close>

theorem get_401_two_refreshes_counterexample:
  "client_data demo_client = Some demo_session \<and>
   on_unauthorized (config demo_client) = None \<and>
   status_code (shd (http_replies unauthorized_world)) = 401 \<and>
   events_of unauthorized_world
     (get ''settings/user-info'' True demo_client unauthorized_world)
     = [get_exchange ''settings/user-info'' demo_session ''t0'' unauthorized,
        login_exchange demo_client (Inr demo_grant),
        login_exchange demo_client (Inr demo_grant),
        get_exchange ''settings/user-info'' demo_session ''t1'' unauthorized] \<and>
   logins_sent (after_first_get (events_of unauthorized_world
     (get ''settings/user-info'' True demo_client unauthorized_world))) = 2"
  by (simp add: run_defs events_of_def after_first_get_def get_exchange_def
      login_exchange_def demo_defs world_defs)

section \<open>The invariant of the session\<close>

lemma preserved_refl: "preserved st st"
  by (simp add: preserved_def)

lemma preserved_trans: "preserved st st' \<Longrightarrow> preserved st' st'' \<Longrightarrow> preserved st st''"
  by (auto simp: preserved_def)

lemma preserved_events: "trace w' = trace w @ es \<Longrightarrow> preserved (c, w) (c, w')"
  by (auto simp: preserved_def session_complete_def list_ex_iff split: option.splits)

lemma preserved_update_token: "preserved (c, w) (snd (update_token c w))"
  by (cases "shd (auth_replies w)")
     (auto simp: preserved_def session_complete_def update_token_def auth_user_eq list_ex_iff
           split: option.splits)

lemma preserved_initialize: "preserved (c, w) (snd (initialize c w))"
proof (cases "token_supplied (config c)")
  case True
  then show ?thesis
    by (auto simp: preserved_def session_complete_def initialize_def token_supplied_def
        split: option.splits)
next
  case False
  then show ?thesis
    by (cases "shd (auth_replies w)")
       (auto simp: preserved_def session_complete_def initialize_login login_and_store_def
          auth_user_eq list_ex_iff split: option.splits)
qed

lemma preserved_refresh_if_expired: "preserved (c, w) (snd (refresh_if_expired c w))"
proof (cases "client_data c")
  case None
  then show ?thesis
    using preserved_update_token [of c w]
    by (simp add: refresh_if_expired_def is_token_expired_def)
next
  case (Some s)
  have "preserved (c, w) (c, w\<lparr>clock := stl (clock w)\<rparr>)"
    by (rule preserved_events [of _ _ "[]"]) simp
  moreover have "preserved (c, w\<lparr>clock := stl (clock w)\<rparr>)
      (snd (update_token c (w\<lparr>clock := stl (clock w)\<rparr>)))"
    by (rule preserved_update_token)
  ultimately show ?thesis
    using Some by (auto simp: refresh_if_expired_Some intro: preserved_trans)
qed

lemma preserved_get_False: "preserved (c, w) (snd (get path False c w))"
proof (cases "client_data c")
  case None
  then show ?thesis by (simp add: get_None preserved_refl)
next
  case (Some s)
  obtain r c1 w1 where rf: "refresh_if_expired c w = (r, c1, w1)"
    by (cases "refresh_if_expired c w") auto
  with preserved_refresh_if_expired [of c w] have p1: "preserved (c, w) (c1, w1)" by simp
  show ?thesis
  proof (cases r)
    case (Inl e)
    with rf p1 show ?thesis by (simp add: get_refresh_failed [OF Some])
  next
    case (Inr u)
    with rf have rf': "refresh_if_expired c w = (Inr u, c1, w1)" by simp
    from refresh_if_expired_passed [OF Some rf'] obtain s1 where s1: "client_data c1 = Some s1"
      by blast
    have "preserved (c1, w1) (snd (get path False c w))"
      by (auto simp: get_sent [OF Some rf' s1] send_def call_back_def
          intro!: preserved_events split: option.splits sum.splits)
    with p1 show ?thesis by (rule preserved_trans)
  qed
qed

lemma preserved_get: "preserved (c, w) (snd (get path retry c w))"
proof (cases retry)
  case False
  then show ?thesis by (simp add: preserved_get_False)
next
  case True
  show ?thesis
  proof (cases "client_data c")
    case None
    then show ?thesis by (simp add: get_None preserved_refl)
  next
    case (Some s)
    obtain r c1 w1 where rf: "refresh_if_expired c w = (r, c1, w1)"
      by (cases "refresh_if_expired c w") auto
    with preserved_refresh_if_expired [of c w] have p1: "preserved (c, w) (c1, w1)" by simp
    show ?thesis
    proof (cases r)
      case (Inl e)
      with rf p1 show ?thesis by (simp add: get_refresh_failed [OF Some])
    next
      case (Inr u)
      with rf have rf': "refresh_if_expired c w = (Inr u, c1, w1)" by simp
      from refresh_if_expired_passed [OF Some rf'] obtain s1 where s1: "client_data c1 = Some s1"
        by blast
      let ?w2 = "snd (send (Api_get path (language s1) (access_token s1)) w1)"
      have p2: "preserved (c1, w1) (c1, ?w2)"
        by (rule preserved_events) (simp add: send_def)
      obtain r3 c3 w3 where up: "update_token c1 ?w2 = (r3, c3, w3)"
        by (cases "update_token c1 ?w2") auto
      with preserved_update_token [of c1 ?w2] have p3: "preserved (c1, ?w2) (c3, w3)" by simp
      have p4: "preserved (c3, w3) (snd (get path False c3 w3))"
        by (rule preserved_get_False)
      have "preserved (c1, w1) (snd (get path retry c w))"
        using True p2 p3 p4 up
        by (cases r3)
           (auto simp: get_sent [OF Some rf' s1] send_def call_back_def
              intro: preserved_trans intro!: preserved_events split: option.splits sum.splits)
      with p1 show ?thesis by (rule preserved_trans)
    qed
  qed
qed

lemma preserved_upload_homework:
  "preserved (c, w) (snd (upload_homework hid a f sh sm c w))"
proof (cases "client_data c")
  case None
  then show ?thesis by (simp add: upload_homework_def preserved_refl)
next
  case (Some s)
  obtain r c1 w1 where rf: "refresh_if_expired c w = (r, c1, w1)"
    by (cases "refresh_if_expired c w") auto
  with preserved_refresh_if_expired [of c w] have p1: "preserved (c, w) (c1, w1)" by simp
  have "preserved (c1, w1) (snd (upload_homework hid a f sh sm c w))"
    using Some rf
    by (auto simp: upload_homework_def send_def Let_def preserved_refl
        intro!: preserved_events split: sum.splits option.splits)
  with p1 show ?thesis by (rule preserved_trans)
qed

lemma preserved_delete_homework:
  "preserved (c, w) (snd (delete_homework hid c w))"
proof (cases "client_data c")
  case None
  then show ?thesis by (simp add: delete_homework_def preserved_refl)
next
  case (Some s)
  obtain r c1 w1 where rf: "refresh_if_expired c w = (r, c1, w1)"
    by (cases "refresh_if_expired c w") auto
  with preserved_refresh_if_expired [of c w] have p1: "preserved (c, w) (c1, w1)" by simp
  have "preserved (c1, w1) (snd (delete_homework hid c w))"
    using Some rf
    by (auto simp: delete_homework_def send_def preserved_refl
        intro!: preserved_events split: sum.splits option.splits)
  with p1 show ?thesis by (rule preserved_trans)
qed

lemma preserved_perform: "preserved st (perform op st)"
proof (cases st)
  case (Pair c w)
  show ?thesis
  proof (cases op)
    case Initialize
    with Pair show ?thesis by (simp add: preserved_initialize)
  next
    case Update_token
    with Pair show ?thesis by (simp add: preserved_update_token)
  next
    case (Get path retry)
    with Pair show ?thesis by (simp add: preserved_get)
  next
    case (Upload_homework hid a f sh sm)
    with Pair show ?thesis by (simp add: preserved_upload_homework)
  next
    case (Delete_homework hid)
    with Pair show ?thesis by (simp add: preserved_delete_homework)
  next
    case (Assign_group_id g)
    with Pair show ?thesis
      by (auto simp: preserved_def session_complete_def split: option.splits)
  qed
qed

lemma preserved_run: "preserved st (run ops st)"
  unfolding run_def
proof (induction ops arbitrary: st)
  case Nil
  show ?case by (simp add: preserved_refl)
next
  case (Cons op ops)
  from preserved_perform [of st op] Cons [of "perform op st"]
  show ?case by (auto intro: preserved_trans)
qed

text \<open>
  C5. After any sequence of calls on a new client, in any world, the session is absent
  or complete. A \<^verbatim>\<open>ClientData\<close> has both fields by its type; the invariant says
  more: the access token and the expiry of the session belong together, being the pair
  of the configuration or the pair granted by one login reply, so no call leaves a token
  with the expiry of another. While the session is absent, \<^verbatim>\<open>get\<close>,
  \<^verbatim>\<open>upload_homework\<close> and \<^verbatim>\<open>delete_homework\<close> raise "Client not initialized".
\<close>

theorem session_absent_or_complete:
  "session_complete (fst (run ops (APIClient_init cfg, w)))
     (snd (run ops (APIClient_init cfg, w)))
   \<and> (client_data (fst (run ops (APIClient_init cfg, w))) = None \<longrightarrow>
        (\<forall>path retry w'.
           fst (get path retry (fst (run ops (APIClient_init cfg, w))) w')
             = Inl UninitializedClientError) \<and>
        (\<forall>homework_id answer_text file spent_time_hour spent_time_min w'.
           fst (upload_homework homework_id answer_text file spent_time_hour spent_time_min
                  (fst (run ops (APIClient_init cfg, w))) w')
             = Inl UninitializedClientError) \<and>
        (\<forall>homework_id w'.
           fst (delete_homework homework_id (fst (run ops (APIClient_init cfg, w))) w')
             = Inl UninitializedClientError))"
proof -
  have "session_complete (APIClient_init cfg) w"
    by (simp add: session_complete_def APIClient_init_def)
  with preserved_run [of "(APIClient_init cfg, w)" ops]
  have "session_complete (fst (run ops (APIClient_init cfg, w)))
     (snd (run ops (APIClient_init cfg, w)))"
    by (simp add: preserved_def)
  then show ?thesis
    by (simp add: get_None upload_homework_def delete_homework_def)
qed

theorem session_absent_or_complete_witness:
  "client_data (fst (run [Initialize, Get ''settings/user-info'' True, Assign_group_id (Some 5),
                          Update_token]
                       (APIClient_init demo_config, demo_world))) \<noteq> None \<and>
   session_complete
     (fst (run [Initialize, Get ''settings/user-info'' True, Assign_group_id (Some 5),
                Update_token]
             (APIClient_init demo_config, demo_world)))
     (snd (run [Initialize, Get ''settings/user-info'' True, Assign_group_id (Some 5),
                Update_token]
             (APIClient_init demo_config, demo_world))) \<and>
   client_data (fst (run [Initialize, Update_token] (APIClient_init demo_config, denying_world)))
     = None \<and>
   fst (get ''count/homework'' True
          (fst (run [Initialize, Update_token] (APIClient_init demo_config, denying_world)))
          demo_world)
     = Inl UninitializedClientError"
proof -
  have a: "client_data (fst (run [Initialize, Get ''settings/user-info'' True,
                          Assign_group_id (Some 5), Update_token]
                       (APIClient_init demo_config, demo_world))) \<noteq> None"
    by (simp add: run_def run_defs demo_defs)
  have n: "client_data (fst (run [Initialize, Update_token]
             (APIClient_init demo_config, denying_world))) = None"
    by (simp add: run_def run_defs demo_defs world_defs)
  from session_absent_or_complete
         [of "[Initialize, Get ''settings/user-info'' True, Assign_group_id (Some 5),
               Update_token]" demo_config demo_world]
       session_absent_or_complete [of "[Initialize, Update_token]" demo_config denying_world]
       a n
  show ?thesis by simp
qed

end
